theory Spec2Isabelle
  imports Complex_Main
begin

section \<open>Bulk upscaling: the worker, its progress channel and the start form\<close>

text \<open>
  A shallow embedding of \<^verbatim>\<open>bulk_upscale.py\<close>. Everything the program does
  through a library (Pillow, the upload client, \<^verbatim>\<open>requests\<close>, pathlib, the file
  system, the stop flag set by the other thread) is an explicit outcome supplied by an
  environment record, so that every raise of the source is a branch of the model.
\<close>

subsection \<open>Python values\<close>

text \<open>
  A raised \<^verbatim>\<open>Exception\<close>, carried by what \<^verbatim>\<open>str(e)\<close> gives. The sub-steps
  raise subclasses of \<^verbatim>\<open>Exception\<close> (\<^verbatim>\<open>OSError\<close>, the request and upload
  errors, \<^verbatim>\<open>ValueError\<close>, \<^verbatim>\<open>OverflowError\<close>); these are what
  \<^verbatim>\<open>except Exception\<close> catches.
\<close>

datatype exn = Exception string

fun str_exn :: "exn \<Rightarrow> string" where
  "str_exn (Exception m) = m"

text \<open>
  A Python float: a finite value (every finite double is a rational), an infinity or a
  NaN. Products of finite values are taken exactly; the rounding of binary floating point
  is not modelled.
\<close>

datatype pyfloat = Finite rat | PosInf | NegInf | NaN

text \<open>\<^verbatim>\<open>orig_w * float(scale_factor)\<close>: an \<^verbatim>\<open>int\<close> times a float.\<close>

fun int_times_float :: "int \<Rightarrow> pyfloat \<Rightarrow> pyfloat" where
  "int_times_float w (Finite s) = Finite (of_int w * s)"
| "int_times_float w PosInf = (if w = 0 then NaN else if 0 < w then PosInf else NegInf)"
| "int_times_float w NegInf = (if w = 0 then NaN else if 0 < w then NegInf else PosInf)"
| "int_times_float w NaN = NaN"

text \<open>
  \<^verbatim>\<open>int(x)\<close> on a float truncates toward zero; it raises \<^verbatim>\<open>OverflowError\<close> on an
  infinity and \<^verbatim>\<open>ValueError\<close> on a NaN.
\<close>

fun py_int :: "pyfloat \<Rightarrow> exn + int" where
  "py_int (Finite x) = Inr (if x < 0 then \<lceil>x\<rceil> else \<lfloor>x\<rfloor>)"
| "py_int PosInf = Inl (Exception ''cannot convert float infinity to integer'')"
| "py_int NegInf = Inl (Exception ''cannot convert float infinity to integer'')"
| "py_int NaN = Inl (Exception ''cannot convert float NaN to integer'')"

text \<open>\<^verbatim>\<open>target_w = max(1, int(orig_w * float(scale_factor)))\<close>\<close>

definition target_w :: "int \<Rightarrow> pyfloat \<Rightarrow> exn + int" where
  "target_w orig_w scale_factor =
     (case py_int (int_times_float orig_w scale_factor) of
        Inl e \<Rightarrow> Inl e
      | Inr n \<Rightarrow> Inr (max 1 n))"


subsection \<open>Paths\<close>

text \<open>
  A \<^verbatim>\<open>pathlib.Path\<close> is the list of its parts; \<^verbatim>\<open>p / name\<close> appends a part,
  \<^verbatim>\<open>p.parent\<close> drops the last one, \<^verbatim>\<open>p.name\<close> is the last one.
\<close>

type_synonym path = "string list"

definition name :: "path \<Rightarrow> string" where
  "name p = (if p = [] then [] else last p)"

definition parent :: "path \<Rightarrow> path" where
  "parent p = butlast p"

definition joinpath :: "path \<Rightarrow> string \<Rightarrow> path" where
  "joinpath p n = p @ [n]"

text \<open>\<^verbatim>\<open>s.rfind(c)\<close>: the index of the last occurrence, or \<open>-1\<close>.\<close>

definition rfind :: "char \<Rightarrow> string \<Rightarrow> int" where
  "rfind c s =
     (if c \<in> set s then int (length s) - 1 - int (length (takeWhile (\<lambda>x. x \<noteq> c) (rev s)))
      else - 1)"

text \<open>
  \<^verbatim>\<open>PurePath.suffix\<close>:
  \<^verbatim>\<open>i = name.rfind('.'); return name[i:] if 0 < i < len(name) - 1 else ''\<close>
\<close>

definition suffix :: "path \<Rightarrow> string" where
  "suffix p =
     (let n = name p; i = rfind (CHR ''.'') n
      in if 0 < i \<and> i < int (length n) - 1 then drop (nat i) n else [])"

definition supported_formats :: "string set" where
  "supported_formats = {''.jpg'', ''.jpeg'', ''.png'', ''.JPG'', ''.JPEG'', ''.PNG''}"

text \<open>Case folding of ASCII letters, for the specification's case-insensitive reading.\<close>

definition lower_char :: "char \<Rightarrow> char" where
  "lower_char c =
     (case map_of (zip ''ABCDEFGHIJKLMNOPQRSTUVWXYZ'' ''abcdefghijklmnopqrstuvwxyz'') c of
        Some d \<Rightarrow> d
      | None \<Rightarrow> c)"

definition upper_char :: "char \<Rightarrow> char" where
  "upper_char c =
     (case map_of (zip ''abcdefghijklmnopqrstuvwxyz'' ''ABCDEFGHIJKLMNOPQRSTUVWXYZ'') c of
        Some d \<Rightarrow> d
      | None \<Rightarrow> c)"

definition allow_set :: "string set" where
  "allow_set = {''.jpg'', ''.jpeg'', ''.png''}"

subsection \<open>Decimal text of integers\<close>

text \<open>\<^verbatim>\<open>str(n)\<close>, as the f-strings of the source format their integers.\<close>

definition digit_char :: "nat \<Rightarrow> char" where
  "digit_char d = ''0123456789'' ! (d mod 10)"

fun str_nat :: "nat \<Rightarrow> string" where
  "str_nat n = (if n < 10 then [digit_char n] else str_nat (n div 10) @ [digit_char (n mod 10)])"

declare str_nat.simps [simp del]

definition str_int :: "int \<Rightarrow> string" where
  "str_int i = (if i < 0 then CHR ''-'' # str_nat (nat (- i)) else str_nat (nat i))"

subsection \<open>The file system and the remote services\<close>

text \<open>
  The state the program changes: the content of each file, the directories that exist,
  and the order in which the program's file operations took effect. The log stream of
  \<^verbatim>\<open>logging\<close> is not part of it.
\<close>

datatype fs_op = MakeDirs path | OpenWrite path | WriteBytes path nat

record fs_state =
  files :: "path \<rightharpoonup> string"
  dirs :: "path set"
  oplog :: "fs_op list"

record response =
  status_code :: int
  content :: string

text \<open>The body the upload returns: a dictionary from keys to text.\<close>

type_synonym upload_result = "string \<rightharpoonup> string"

text \<open>
  What the libraries answer, per path or URL. Each entry is the outcome of one call of
  the source:
  \<^verbatim>\<open>Image.open(p).size\<close>, \<^verbatim>\<open>cloudinary.uploader.upload\<close> with the requested width,
  \<^verbatim>\<open>requests.get\<close> (a timeout is one of its raises), \<^verbatim>\<open>mkdir\<close>, \<^verbatim>\<open>open(p, "wb")\<close>
  and \<^verbatim>\<open>f.write\<close>, which may raise after only some bytes have reached the file;
  \<^verbatim>\<open>os.listdir\<close> and \<^verbatim>\<open>is_file\<close> for the enumeration.
\<close>

record env =
  image_size :: "path \<Rightarrow> exn + (int \<times> int)"
  upload :: "path \<Rightarrow> int \<Rightarrow> exn + upload_result"
  requests_get :: "string \<Rightarrow> exn + response"
  mkdir_fault :: "path \<Rightarrow> exn option"
  open_fault :: "path \<Rightarrow> exn option"
  write_fault :: "path \<Rightarrow> (exn \<times> nat) option"
  listdir :: "path \<Rightarrow> exn + string list"
  is_file :: "path \<Rightarrow> bool"

text \<open>All the directories \<^verbatim>\<open>mkdir(parents=True)\<close> makes sure of: the path and its ancestors.\<close>

definition ancestors :: "path \<Rightarrow> path list" where
  "ancestors p = map (\<lambda>k. take k p) [1 ..< Suc (length p)]"

text \<open>\<^verbatim>\<open>p.mkdir(parents=True, exist_ok=True)\<close>\<close>

definition mkdir_parents :: "env \<Rightarrow> path \<Rightarrow> fs_state \<Rightarrow> exn option \<times> fs_state" where
  "mkdir_parents E p s =
     (case mkdir_fault E p of
        Some e \<Rightarrow> (Some e, s)
      | None \<Rightarrow> (None, s\<lparr>dirs := dirs s \<union> set (ancestors p), oplog := oplog s @ [MakeDirs p]\<rparr>))"

text \<open>
  \<^verbatim>\<open>with open(p, "wb") as f: f.write(data)\<close>. Opening creates or truncates the file;
  a write that raises leaves the bytes already written, and the file is closed.
\<close>

definition write_file :: "env \<Rightarrow> path \<Rightarrow> string \<Rightarrow> fs_state \<Rightarrow> exn option \<times> fs_state" where
  "write_file E p data s =
     (case open_fault E p of
        Some e \<Rightarrow> (Some e, s)
      | None \<Rightarrow>
          (let s1 = s\<lparr>files := (files s)(p \<mapsto> []), oplog := oplog s @ [OpenWrite p]\<rparr>
           in case write_fault E p of
                Some (e, k) \<Rightarrow>
                  (Some e, s1\<lparr>files := (files s1)(p \<mapsto> take k data),
                              oplog := oplog s1 @ [WriteBytes p (min k (length data))]\<rparr>)
              | None \<Rightarrow>
                  (None, s1\<lparr>files := (files s1)(p \<mapsto> data),
                            oplog := oplog s1 @ [WriteBytes p (length data)]\<rparr>)))"

subsection \<open>Processing one image\<close>

text \<open>\<^verbatim>\<open>a or b\<close> on two results of \<^verbatim>\<open>dict.get\<close>: \<^verbatim>\<open>None\<close> and \<^verbatim>\<open>''\<close> are falsy.\<close>

definition py_or :: "string option \<Rightarrow> string option \<Rightarrow> string option" where
  "py_or a b = (if a = None \<or> a = Some [] then b else a)"

text \<open>
  The body of the \<^verbatim>\<open>try\<close> block of \<^verbatim>\<open>upscale_image\<close>: \<open>Inl\<close> is an exception raised
  inside it, \<open>Inr\<close> one of its three \<^verbatim>\<open>return\<close> statements.
\<close>

definition upscale_image_body ::
  "env \<Rightarrow> path \<Rightarrow> path \<Rightarrow> pyfloat \<Rightarrow> fs_state \<Rightarrow> (exn + bool \<times> string) \<times> fs_state" where
  "upscale_image_body E image_path output_path scale_factor s =
     (case image_size E image_path of
        Inl e \<Rightarrow> (Inl e, s)
      | Inr (orig_w, orig_h) \<Rightarrow>
     (case target_w orig_w scale_factor of
        Inl e \<Rightarrow> (Inl e, s)
      | Inr tw \<Rightarrow>
     (case upload E image_path tw of
        Inl e \<Rightarrow> (Inl e, s)
      | Inr result \<Rightarrow>
     (case py_or (result ''secure_url'') (result ''url'') of
        None \<Rightarrow> (Inr (False, ''Cloudinary did not return a URL''), s)
      | Some url \<Rightarrow>
          if url = [] then (Inr (False, ''Cloudinary did not return a URL''), s)
          else
     (case requests_get E url of
        Inl e \<Rightarrow> (Inl e, s)
      | Inr resp \<Rightarrow>
          if status_code resp = 200 then
            (case mkdir_parents E (parent output_path) s of
               (Some e, s1) \<Rightarrow> (Inl e, s1)
             | (None, s1) \<Rightarrow>
                 (case write_file E output_path (content resp) s1 of
                    (Some e, s2) \<Rightarrow> (Inl e, s2)
                  | (None, s2) \<Rightarrow> (Inr (True, ''OK''), s2)))
          else (Inr (False, ''HTTP '' @ str_int (status_code resp)), s))))))"

text \<open>
  \<^verbatim>\<open>upscale_image\<close>: the body under \<^verbatim>\<open>except Exception as e: return False, str(e)\<close>.
  The result type still has room for an exception that leaves the function.
\<close>

definition upscale_image ::
  "env \<Rightarrow> path \<Rightarrow> path \<Rightarrow> pyfloat \<Rightarrow> fs_state \<Rightarrow> (exn + bool \<times> string) \<times> fs_state" where
  "upscale_image E image_path output_path scale_factor s =
     (case upscale_image_body E image_path output_path scale_factor s of
        (Inl e, s') \<Rightarrow> (Inr (False, str_exn e), s')
      | (Inr r, s') \<Rightarrow> (Inr r, s'))"

subsection \<open>The worker and its progress events\<close>

datatype event =
    Total nat
  | Status string
  | Progress nat bool string
  | Stopped string
  | Done nat nat

text \<open>\<^verbatim>\<open>f"[{idx}/{total}] {image_path.name}"\<close>\<close>

definition status_text :: "nat \<Rightarrow> nat \<Rightarrow> path \<Rightarrow> string" where
  "status_text idx total_n image_path =
     ''['' @ str_nat idx @ ''/'' @ str_nat total_n @ ''] '' @ name image_path"

text \<open>
  The \<^verbatim>\<open>for idx, image_path in enumerate(image_files, start=1)\<close> loop. \<open>stop_flag idx\<close>
  is what \<^verbatim>\<open>stop_flag.is_set()\<close> answers at the top of iteration \<open>idx\<close>; the queue
  grows at its end with every \<^verbatim>\<open>queue.put\<close>. The result is the exception that left
  the loop, if any, with \<^verbatim>\<open>successful\<close>, the queue and the file system.
\<close>

fun worker_loop ::
  "env \<Rightarrow> path \<Rightarrow> pyfloat \<Rightarrow> (nat \<Rightarrow> bool) \<Rightarrow> nat \<Rightarrow> nat \<Rightarrow> path list \<Rightarrow> nat \<Rightarrow>
   event list \<Rightarrow> fs_state \<Rightarrow> exn option \<times> nat \<times> event list \<times> fs_state" where
  "worker_loop E out scale_factor stop_flag total_n idx [] successful q s =
     (None, successful, q, s)"
| "worker_loop E out scale_factor stop_flag total_n idx (image_path # rest) successful q s =
     (if stop_flag idx then
        (None, successful, q @ [Stopped ''Processing stopped by user''], s)
      else
        (let out_name = ''u'' @ name image_path;
             out_path = joinpath out out_name;
             q1 = q @ [Status (status_text idx total_n image_path)]
         in case upscale_image E image_path out_path scale_factor s of
              (Inl e, s') \<Rightarrow> (Some e, successful, q1, s')
            | (Inr (ok, msg), s') \<Rightarrow>
                if ok then
                  worker_loop E out scale_factor stop_flag total_n (Suc idx) rest (successful + 1)
                    (q1 @ [Progress idx True (name image_path)]) s'
                else
                  worker_loop E out scale_factor stop_flag total_n (Suc idx) rest successful
                    (q1 @ [Progress idx False (name image_path @ '' -> '' @ msg)]) s'))"

text \<open>
  \<^verbatim>\<open>[f for f in src.iterdir() if f.is_file() and f.suffix in supported_formats]\<close>
\<close>

definition image_files :: "env \<Rightarrow> path \<Rightarrow> exn + path list" where
  "image_files E src =
     (case listdir E src of
        Inl e \<Rightarrow> Inl e
      | Inr names \<Rightarrow>
          Inr (filter (\<lambda>f. is_file E f \<and> suffix f \<in> supported_formats)
                 (map (joinpath src) names)))"

text \<open>
  \<^verbatim>\<open>process_all_images_worker\<close>, from the paths \<^verbatim>\<open>Path(source_folder)\<close> and
  \<^verbatim>\<open>Path(output_folder)\<close>; the source's \<^verbatim>\<open>total\<close> is \<open>total_n\<close> here. Nothing in it catches an exception of \<^verbatim>\<open>out.mkdir\<close> or
  of the enumeration: the thread ends there.
\<close>

definition process_all_images_worker ::
  "env \<Rightarrow> path \<Rightarrow> path \<Rightarrow> pyfloat \<Rightarrow> (nat \<Rightarrow> bool) \<Rightarrow> event list \<Rightarrow> fs_state \<Rightarrow>
   exn option \<times> event list \<times> fs_state" where
  "process_all_images_worker E src out scale_factor stop_flag q s =
     (case mkdir_parents E out s of
        (Some e, s1) \<Rightarrow> (Some e, q, s1)
      | (None, s1) \<Rightarrow>
          (case image_files E src of
             Inl e \<Rightarrow> (Some e, q, s1)
           | Inr fs \<Rightarrow>
               (let total_n = length fs;
                    q1 = q @ [Total total_n]
                in case worker_loop E out scale_factor stop_flag total_n 1 fs 0 q1 s1 of
                     (Some e, successful, q2, s2) \<Rightarrow> (Some e, q2, s2)
                   | (None, successful, q2, s2) \<Rightarrow> (None, q2 @ [Done successful total_n], s2))))"

subsection \<open>The start form\<close>






datatype status_label = Ready | Starting | WaitingForStop | Label string









subsection \<open>Reading the channel\<close>


fun is_result :: "event \<Rightarrow> bool" where
  "is_result (Progress i ok d) = True"
| "is_result e = False"

fun is_success :: "event \<Rightarrow> bool" where
  "is_success (Progress i ok d) = ok"
| "is_success e = False"

fun is_stopped :: "event \<Rightarrow> bool" where
  "is_stopped (Stopped r) = True"
| "is_stopped e = False"

fun is_done :: "event \<Rightarrow> bool" where
  "is_done (Done a b) = True"
| "is_done e = False"


text \<open>
  The two events one iteration pushes for the file at position \<open>i\<close>, when
  \<^verbatim>\<open>upscale_image\<close> has answered \<open>(ok, msg)\<close>: the status line, then the result.
\<close>

definition attempt_events :: "nat \<Rightarrow> nat \<times> path \<times> bool \<times> string \<Rightarrow> event list" where
  "attempt_events total_n a =
     (case a of (i, p, ok, msg) \<Rightarrow>
        [Status (status_text i total_n p),
         Progress i ok (if ok then name p else name p @ '' -> '' @ msg)])"


subsection \<open>Concrete runs\<close>

definition empty_fs :: fs_state where
  "empty_fs = \<lparr>files = Map.empty, dirs = {}, oplog = []\<rparr>"

text \<open>
  A source directory with five entries, three of them candidates; the service answers
  every upload with a URL, and the download of the second candidate answers 500.
\<close>

definition demo_env :: env where
  "demo_env =
     \<lparr>image_size = (\<lambda>p. Inr (1000, 500)),
      upload = (\<lambda>p w. Inr [''secure_url'' \<mapsto> ''https://cdn/'' @ name p]),
      requests_get = (\<lambda>u. if u = ''https://cdn/b.png''
                            then Inr \<lparr>status_code = 500, content = []\<rparr>
                            else Inr \<lparr>status_code = 200, content = ''data''\<rparr>),
      mkdir_fault = (\<lambda>p. None),
      open_fault = (\<lambda>p. None),
      write_fault = (\<lambda>p. None),
      listdir = (\<lambda>p. Inr [''a.jpg'', ''b.png'', ''notes.txt'', ''c.jpg'', ''d.Jpg'']),
      is_file = (\<lambda>p. True)\<rparr>"




text \<open>A stop flag that is set once the first file is done.\<close>

definition stop_after_first :: "nat \<Rightarrow> bool" where
  "stop_after_first k = (2 \<le> k)"




text \<open>The three candidates of the demo directory, as the worker lists them.\<close>

definition demo_files :: "path list" where
  "demo_files = [[''src'', ''a.jpg''], [''src'', ''b.png''], [''src'', ''c.jpg'']]"


definition no_header_env :: env where
  "no_header_env =
     demo_env\<lparr>image_size := (\<lambda>p. Inl (Exception ''cannot identify image file''))\<rparr>"

definition upload_fails_env :: env where
  "upload_fails_env = demo_env\<lparr>upload := (\<lambda>p w. Inl (Exception ''Invalid api_key''))\<rparr>"

definition no_url_env :: env where
  "no_url_env = demo_env\<lparr>upload := (\<lambda>p w. Inr [''url'' \<mapsto> []])\<rparr>"


section \<open>The shape of every run of the worker\<close>

text \<open>
  \<^verbatim>\<open>upscale_image\<close> answers with a pair whatever its sub-steps do; so the loop runs
  iteration after iteration until the list ends or the stop flag is seen, and what it
  pushes is a status line and a result for each file it attempted.
\<close>

lemma upscale_image_Inr:
  "\<exists>ok msg s'. upscale_image E ip op sc s = (Inr (ok, msg), s')"
  unfolding upscale_image_def
  by (cases "upscale_image_body E ip op sc s"; cases "fst (upscale_image_body E ip op sc s)") auto

lemma worker_loop_shape:
  "\<exists>R s'. length R \<le> length ps \<and>
     worker_loop E out sc stop total_n idx ps succ q s =
       (None, succ + length (filter fst R),
        q @ concat (map (attempt_events total_n)
                 (zip [idx ..< idx + length R] (zip (take (length R) ps) R)))
          @ (if length R < length ps then [Stopped ''Processing stopped by user''] else []),
        s') \<and>
     (\<forall>j < length R. \<not> stop (idx + j)) \<and>
     (length R < length ps \<longrightarrow> stop (idx + length R))"
proof (induction ps arbitrary: idx succ q s)
  case Nil
  show ?case by simp
next
  case (Cons p ps)
  show ?case
  proof (cases "stop idx")
    case True
    then show ?thesis by (intro exI[of _ "[]"]) simp
  next
    case False
    obtain ok msg s1 where u: "upscale_image E p (joinpath out (''u'' @ name p)) sc s = (Inr (ok, msg), s1)"
      using upscale_image_Inr by blast
    let ?succ = "if ok then succ + 1 else succ"
    let ?q = "q @ attempt_events total_n (idx, p, ok, msg)"
    from Cons.IH[of "Suc idx" ?succ ?q s1]
    obtain R s' where R: "length R \<le> length ps"
      "worker_loop E out sc stop total_n (Suc idx) ps ?succ ?q s1 =
       (None, ?succ + length (filter fst R),
        ?q @ concat (map (attempt_events total_n)
                 (zip [Suc idx ..< Suc idx + length R] (zip (take (length R) ps) R)))
          @ (if length R < length ps then [Stopped ''Processing stopped by user''] else []),
        s')"
      "\<forall>j < length R. \<not> stop (Suc idx + j)"
      "length R < length ps \<longrightarrow> stop (Suc idx + length R)"
      by blast
    have loop: "worker_loop E out sc stop total_n idx (p # ps) succ q s =
        worker_loop E out sc stop total_n (Suc idx) ps ?succ ?q s1"
      using False u by (simp add: attempt_events_def)
    have upt: "[idx ..< idx + length ((ok, msg) # R)] = idx # [Suc idx ..< Suc idx + length R]"
      using upt_conv_Cons[of idx "Suc (idx + length R)"] by simp
    have nostop: "\<forall>j < length ((ok, msg) # R). \<not> stop (idx + j)"
    proof (intro allI impI)
      fix j assume "j < length ((ok, msg) # R)"
      then show "\<not> stop (idx + j)" using False R(3) by (cases j) auto
    qed
    show ?thesis
      apply (intro exI[of _ "(ok, msg) # R"] exI[of _ s'])
      apply (simp only: loop R(2) upt)
      using R(1) R(4) nostop by (cases ok) (auto)
  qed
qed

lemma worker_shape:
  assumes "mkdir_fault E out = None" and "image_files E src = Inr fs"
  shows "\<exists>R s'. length R \<le> length fs \<and>
     process_all_images_worker E src out sc stop q s =
       (None,
        q @ Total (length fs) #
          concat (map (attempt_events (length fs))
                 (zip [1 ..< Suc (length R)] (zip (take (length R) fs) R)))
          @ (if length R < length fs then [Stopped ''Processing stopped by user''] else [])
          @ [Done (length (filter fst R)) (length fs)],
        s') \<and>
     (\<forall>j. 1 \<le> j \<and> j \<le> length R \<longrightarrow> \<not> stop j) \<and>
     (length R < length fs \<longrightarrow> stop (Suc (length R)))"
proof -
  obtain s1 where mk: "mkdir_parents E out s = (None, s1)"
    using assms(1) by (simp add: mkdir_parents_def)
  from worker_loop_shape[of fs E out sc stop "length fs" 1 0 "q @ [Total (length fs)]" s1]
  obtain R s' where R: "length R \<le> length fs"
     "worker_loop E out sc stop (length fs) 1 fs 0 (q @ [Total (length fs)]) s1 =
       (None, 0 + length (filter fst R),
        (q @ [Total (length fs)]) @ concat (map (attempt_events (length fs))
                 (zip [1 ..< 1 + length R] (zip (take (length R) fs) R)))
          @ (if length R < length fs then [Stopped ''Processing stopped by user''] else []),
        s')"
     "\<forall>j < length R. \<not> stop (1 + j)"
     "length R < length fs \<longrightarrow> stop (1 + length R)"
    by blast
  have ns: "\<forall>j. 1 \<le> j \<and> j \<le> length R \<longrightarrow> \<not> stop j"
  proof (intro allI impI)
    fix j assume j: "1 \<le> j \<and> j \<le> length R"
    then have "j - 1 < length R" by arith
    with R(3) have "\<not> stop (1 + (j - 1))" by blast
    with j show "\<not> stop j" by simp
  qed
  have eq: "process_all_images_worker E src out sc stop q s =
       (None,
        q @ Total (length fs) #
          concat (map (attempt_events (length fs))
                 (zip [1 ..< Suc (length R)] (zip (take (length R) fs) R)))
          @ (if length R < length fs then [Stopped ''Processing stopped by user''] else [])
          @ [Done (length (filter fst R)) (length fs)],
        s')"
    using R(2) by (simp add: process_all_images_worker_def mk assms(2) Let_def del: upt_Suc)
  have st: "length R < length fs \<longrightarrow> stop (Suc (length R))"
    using R(4) by simp
  from R(1) eq ns st show ?thesis by blast
qed




lemma results_attempts:
  "filter is_result (concat (map (attempt_events n) Z)) =
   map (\<lambda>(i, p, ok, msg). Progress i ok (if ok then name p else name p @ '' -> '' @ msg)) Z"
  by (induction Z) (auto simp: attempt_events_def)

lemma success_attempts:
  "length (filter is_success (concat (map (attempt_events n) Z))) =
   length (filter (\<lambda>(i, p, ok, msg). ok) Z)"
  by (induction Z) (auto simp: attempt_events_def)


lemma no_stop_done_attempts:
  "filter (\<lambda>e. is_stopped e \<or> is_done e) (concat (map (attempt_events n) Z)) = []"
  by (induction Z) (auto simp: attempt_events_def)




lemma count_ok_zip3:
  "length I = length R \<Longrightarrow> length ps = length R \<Longrightarrow>
   length (filter (\<lambda>(i, p, ok, msg). ok) (zip I (zip ps R))) = length (filter fst R)"
proof (induction R arbitrary: I ps)
  case Nil then show ?case by simp
next
  case (Cons r R)
  then obtain p ps' i I' where "ps = p # ps'" "I = i # I'"
    by (cases ps; cases I) auto
  with Cons show ?case by (cases r) auto
qed


section \<open>Helper facts about the single-image step\<close>


lemma lower_supported:
  "x \<in> supported_formats \<Longrightarrow> map lower_char x \<in> allow_set"
  by (auto simp: supported_formats_def allow_set_def lower_char_def)

lemma supported_spellings:
  "x \<in> supported_formats \<longleftrightarrow> (x \<in> allow_set \<or> x \<in> map upper_char ` allow_set)"
  by (auto simp: supported_formats_def allow_set_def upper_char_def)



section \<open>Target width\<close>



section \<open>Candidate files\<close>

text \<open>
  Claim C2, as amended. An entry of the source directory is a candidate if and only if it
  is a regular file and its extension is one of \<^verbatim>\<open>.jpg\<close>, \<^verbatim>\<open>.jpeg\<close>, \<^verbatim>\<open>.png\<close>
  written entirely in lower case or entirely in upper case. So every candidate's extension
  belongs to the allow-set when compared case-insensitively; the converse does not hold
  for mixed-case spellings.
\<close>

theorem candidate_iff_listed_spelling:
  assumes "image_files E src = Inr fs" and "listdir E src = Inr names"
  shows "(f \<in> set fs \<longleftrightarrow>
            f \<in> joinpath src ` set names \<and> is_file E f \<and>
            (suffix f \<in> allow_set \<or> suffix f \<in> map upper_char ` allow_set)) \<and>
         (f \<in> set fs \<longrightarrow> map lower_char (suffix f) \<in> allow_set)"
proof -
  have fs: "fs = filter (\<lambda>f. is_file E f \<and> suffix f \<in> supported_formats) (map (joinpath src) names)"
    using assms by (simp add: image_files_def)
  show ?thesis
    unfolding fs using lower_supported supported_spellings by auto
qed

theorem candidate_iff_listed_spelling_witness:
  "image_files demo_env [''src''] = Inr demo_files \<and>
   listdir demo_env [''src''] = Inr [''a.jpg'', ''b.png'', ''notes.txt'', ''c.jpg'', ''d.Jpg''] \<and>
   [''src'', ''a.jpg''] \<in> set demo_files \<and>
   is_file demo_env [''src'', ''a.jpg''] \<and>
   suffix [''src'', ''a.jpg''] = ''.jpg'' \<and>
   map lower_char (suffix [''src'', ''a.jpg'']) \<in> allow_set"
proof -
  have h1: "image_files demo_env [''src''] = Inr demo_files"
    by (simp add: image_files_def demo_env_def demo_files_def joinpath_def suffix_def
        name_def rfind_def supported_formats_def)
  have h2: "listdir demo_env [''src''] =
      Inr [''a.jpg'', ''b.png'', ''notes.txt'', ''c.jpg'', ''d.Jpg'']"
    by (simp add: demo_env_def)
  have m: "[''src'', ''a.jpg''] \<in> set demo_files"
    by (simp add: demo_files_def)
  have sfx: "suffix [''src'', ''a.jpg''] = ''.jpg''"
    by (simp add: suffix_def name_def rfind_def)
  from candidate_iff_listed_spelling[OF h1 h2, of "[''src'', ''a.jpg'']"] m
  have f: "is_file demo_env [''src'', ''a.jpg'']"
    and l: "map lower_char (suffix [''src'', ''a.jpg'']) \<in> allow_set"
    by blast+
  from h1 h2 m f sfx l show ?thesis by (intro conjI)
qed

text \<open>
  Claim C2 as written has every case variant enumerated. The demo directory holds the
  regular file \<^verbatim>\<open>d.Jpg\<close>, whose extension is in the allow-set when case is ignored, and
  the enumeration leaves it out.
\<close>

theorem mixed_case_not_candidate:
  "listdir demo_env [''src''] = Inr [''a.jpg'', ''b.png'', ''notes.txt'', ''c.jpg'', ''d.Jpg''] \<and>
   is_file demo_env [''src'', ''d.Jpg''] \<and>
   suffix [''src'', ''d.Jpg''] = ''.Jpg'' \<and>
   map lower_char ''.Jpg'' \<in> allow_set \<and>
   image_files demo_env [''src''] = Inr demo_files \<and>
   [''src'', ''d.Jpg''] \<notin> set demo_files"
  by (simp add: image_files_def demo_env_def demo_files_def joinpath_def suffix_def name_def
      rfind_def supported_formats_def lower_char_def allow_set_def)

section \<open>A run that is never cancelled\<close>




section \<open>A cancelled run\<close>

text \<open>
  Claim C4. When the worker has listed \<open>N\<close> candidate files and the stop flag is seen set
  at the top of the iteration for file \<open>k\<close> (\<open>1 \<le> k \<le> N\<close>), the worker pushes at most
  \<open>k - 1\<close> results, then exactly one \<open>Stopped\<close> and, right after it, exactly one \<open>Done\<close>
  that ends the sequence; the total of that \<open>Done\<close> is \<open>N\<close> and its count of successes is
  the number of results reporting success that were pushed before the stop.
\<close>

theorem cancel_before_file_k:
  assumes "mkdir_fault E out = None" and "image_files E src = Inr fs"
    and "1 \<le> k" and "k \<le> length fs" and "stop k"
  shows "\<exists>pre successful s'.
     process_all_images_worker E src out sc stop q s =
       (None, q @ pre @ [Stopped ''Processing stopped by user'', Done successful (length fs)], s') \<and>
     length (filter is_result pre) \<le> k - 1 \<and>
     filter (\<lambda>e. is_stopped e \<or> is_done e) pre = [] \<and>
     successful = length (filter is_success pre)"
proof -
  from worker_shape[OF assms(1,2), of sc stop q s]
  obtain R s' where R: "length R \<le> length fs"
     "process_all_images_worker E src out sc stop q s =
       (None,
        q @ Total (length fs) #
          concat (map (attempt_events (length fs))
                 (zip [1 ..< Suc (length R)] (zip (take (length R) fs) R)))
          @ (if length R < length fs then [Stopped ''Processing stopped by user''] else [])
          @ [Done (length (filter fst R)) (length fs)],
        s')"
     "\<forall>j. 1 \<le> j \<and> j \<le> length R \<longrightarrow> \<not> stop j"
    by blast
  have lt: "length R < k"
  proof (rule ccontr)
    assume "\<not> length R < k"
    then have "1 \<le> k \<and> k \<le> length R" using assms(3) by simp
    with R(3) have "\<not> stop k" by blast
    with assms(5) show False by simp
  qed
  then have short: "length R < length fs" using assms(4) by simp
  let ?Z = "zip [1 ..< Suc (length R)] (zip (take (length R) fs) R)"
  let ?pre = "Total (length fs) # concat (map (attempt_events (length fs)) ?Z)"
  have lenZ: "length ?Z = length R" using R(1) by (simp del: upt_Suc)
  have run: "process_all_images_worker E src out sc stop q s =
       (None, q @ ?pre @ [Stopped ''Processing stopped by user'',
                          Done (length (filter fst R)) (length fs)], s')"
    using R(2) short by simp
  have res: "length (filter is_result ?pre) \<le> k - 1"
    using lt lenZ by (simp add: results_attempts del: upt_Suc)
  have nsd: "filter (\<lambda>e. is_stopped e \<or> is_done e) ?pre = []"
    by (simp add: no_stop_done_attempts del: upt_Suc)
  have "length (filter (\<lambda>(i, p, ok, msg). ok) ?Z) = length (filter fst R)"
    using R(1) by (intro count_ok_zip3) (simp_all del: upt_Suc)
  then have succ: "length (filter fst R) = length (filter is_success ?pre)"
    by (simp add: success_attempts del: upt_Suc)
  from run res nsd succ show ?thesis by blast
qed

theorem cancel_before_file_k_witness:
  "mkdir_fault demo_env [''out''] = None \<and>
   image_files demo_env [''src''] = Inr demo_files \<and>
   (1::nat) \<le> 2 \<and> 2 \<le> length demo_files \<and> stop_after_first 2 \<and>
   (\<exists>pre successful s'.
     process_all_images_worker demo_env [''src''] [''out''] (Finite 2) stop_after_first []
         empty_fs =
       (None, [] @ pre @ [Stopped ''Processing stopped by user'',
                          Done successful (length demo_files)], s') \<and>
     length (filter is_result pre) \<le> 2 - 1 \<and>
     filter (\<lambda>e. is_stopped e \<or> is_done e) pre = [] \<and>
     successful = length (filter is_success pre)) \<and>
   fst (snd (process_all_images_worker demo_env [''src''] [''out''] (Finite 2) stop_after_first
              [] empty_fs)) =
     [Total 3, Status ''[1/3] a.jpg'', Progress 1 True ''a.jpg'',
      Stopped ''Processing stopped by user'', Done 1 3]"
proof -
  have h1: "mkdir_fault demo_env [''out''] = None"
    by (simp add: demo_env_def)
  have h2: "image_files demo_env [''src''] = Inr demo_files"
    by code_simp
  have h3: "(1::nat) \<le> 2"
    by simp
  have h4: "2 \<le> length demo_files"
    by (simp add: demo_files_def)
  have h5: "stop_after_first 2"
    by (simp add: stop_after_first_def)
  note c = cancel_before_file_k[where stop = stop_after_first and k = 2 and sc = "Finite 2"
      and q = "[]" and s = empty_fs, OF h1 h2 h3 h4 h5]
  have r: "fst (snd (process_all_images_worker demo_env [''src''] [''out''] (Finite 2)
                       stop_after_first [] empty_fs)) =
     [Total 3, Status ''[1/3] a.jpg'', Progress 1 True ''a.jpg'',
      Stopped ''Processing stopped by user'', Done 1 3]"
    by code_simp
  from h1 h2 h3 h4 h5 c r show ?thesis by (intro conjI)
qed

section \<open>No fault leaves the single-image step\<close>



section \<open>A failed download and the destination file\<close>




section \<open>Input errors of the start form\<close>




section \<open>The order of the events of a run\<close>




section \<open>Status lines and results\<close>



section \<open>Failures before the download is written\<close>

text \<open>
  Claim C10. When \<^verbatim>\<open>upscale_image\<close> fails before the write step, because the image
  header cannot be read, the upload raises, the answer of the service has no URL, or the
  download answers with a status other than 200, it returns \<open>(False, message)\<close> and the
  file system is exactly as before: no file is created, changed or deleted, at the
  destination or anywhere else.
\<close>

theorem early_failure_changes_nothing:
  "(\<forall>e. image_size E ip = Inl e \<longrightarrow>
      upscale_image E ip op sc s = (Inr (False, str_exn e), s)) \<and>
   (\<forall>w h tw e. image_size E ip = Inr (w, h) \<and> target_w w sc = Inr tw \<and>
        upload E ip tw = Inl e \<longrightarrow>
      upscale_image E ip op sc s = (Inr (False, str_exn e), s)) \<and>
   (\<forall>w h tw result. image_size E ip = Inr (w, h) \<and> target_w w sc = Inr tw \<and>
        upload E ip tw = Inr result \<and>
        (py_or (result ''secure_url'') (result ''url'') = None \<or>
         py_or (result ''secure_url'') (result ''url'') = Some []) \<longrightarrow>
      upscale_image E ip op sc s = (Inr (False, ''Cloudinary did not return a URL''), s)) \<and>
   (\<forall>w h tw result url resp. image_size E ip = Inr (w, h) \<and> target_w w sc = Inr tw \<and>
        upload E ip tw = Inr result \<and>
        py_or (result ''secure_url'') (result ''url'') = Some url \<and> url \<noteq> [] \<and>
        requests_get E url = Inr resp \<and> status_code resp \<noteq> 200 \<longrightarrow>
      upscale_image E ip op sc s = (Inr (False, ''HTTP '' @ str_int (status_code resp)), s))"
  by (auto simp: upscale_image_def upscale_image_body_def)

theorem early_failure_changes_nothing_witness:
  "image_size no_header_env [''src'', ''b.png''] = Inl (Exception ''cannot identify image file'') \<and>
   upscale_image no_header_env [''src'', ''b.png''] [''out'', ''ub.png''] (Finite 2) empty_fs =
     (Inr (False, ''cannot identify image file''), empty_fs) \<and>
   upload upload_fails_env [''src'', ''b.png''] 2000 = Inl (Exception ''Invalid api_key'') \<and>
   upscale_image upload_fails_env [''src'', ''b.png''] [''out'', ''ub.png''] (Finite 2) empty_fs =
     (Inr (False, ''Invalid api_key''), empty_fs) \<and>
   upload no_url_env [''src'', ''b.png''] 2000 = Inr [''url'' \<mapsto> []] \<and>
   upscale_image no_url_env [''src'', ''b.png''] [''out'', ''ub.png''] (Finite 2) empty_fs =
     (Inr (False, ''Cloudinary did not return a URL''), empty_fs) \<and>
   requests_get demo_env ''https://cdn/b.png'' = Inr \<lparr>status_code = 500, content = []\<rparr> \<and>
   upscale_image demo_env [''src'', ''b.png''] [''out'', ''ub.png''] (Finite 2) empty_fs =
     (Inr (False, ''HTTP 500''), empty_fs)"
proof -
  let ?ip = "[''src'', ''b.png'']"
  let ?op = "[''out'', ''ub.png'']"
  let ?result = "[''secure_url'' \<mapsto> ''https://cdn/b.png'']"
  let ?resp = "\<lparr>status_code = 500, content = []\<rparr>"
  have tw: "target_w 1000 (Finite 2) = Inr 2000"
    by (simp add: target_w_def)
  have a1: "image_size no_header_env ?ip = Inl (Exception ''cannot identify image file'')"
    by (simp add: no_header_env_def demo_env_def)
  from early_failure_changes_nothing[where E = no_header_env and ip = ?ip and op = ?op
      and sc = "Finite 2" and s = empty_fs] a1
  have "upscale_image no_header_env ?ip ?op (Finite 2) empty_fs =
     (Inr (False, str_exn (Exception ''cannot identify image file'')), empty_fs)"
    by blast
  then have r1: "upscale_image no_header_env ?ip ?op (Finite 2) empty_fs =
     (Inr (False, ''cannot identify image file''), empty_fs)"
    by simp
  have b1: "image_size upload_fails_env ?ip = Inr (1000, 500)"
    by (simp add: upload_fails_env_def demo_env_def)
  have b2: "upload upload_fails_env ?ip 2000 = Inl (Exception ''Invalid api_key'')"
    by (simp add: upload_fails_env_def demo_env_def)
  from early_failure_changes_nothing[where E = upload_fails_env and ip = ?ip and op = ?op
      and sc = "Finite 2" and s = empty_fs] b1 tw b2
  have "upscale_image upload_fails_env ?ip ?op (Finite 2) empty_fs =
     (Inr (False, str_exn (Exception ''Invalid api_key'')), empty_fs)"
    by blast
  then have r2: "upscale_image upload_fails_env ?ip ?op (Finite 2) empty_fs =
     (Inr (False, ''Invalid api_key''), empty_fs)"
    by simp
  have c1: "image_size no_url_env ?ip = Inr (1000, 500)"
    by (simp add: no_url_env_def demo_env_def)
  have c2: "upload no_url_env ?ip 2000 = Inr [''url'' \<mapsto> []]"
    by (simp add: no_url_env_def demo_env_def)
  have c3: "py_or ([''url'' \<mapsto> []] ''secure_url'') ([''url'' \<mapsto> []] ''url'') = Some []"
    by (simp add: py_or_def)
  from early_failure_changes_nothing[where E = no_url_env and ip = ?ip and op = ?op
      and sc = "Finite 2" and s = empty_fs] c1 tw c2 c3
  have r3: "upscale_image no_url_env ?ip ?op (Finite 2) empty_fs =
     (Inr (False, ''Cloudinary did not return a URL''), empty_fs)"
    by blast
  have d1: "image_size demo_env ?ip = Inr (1000, 500)"
    by (simp add: demo_env_def)
  have d2: "upload demo_env ?ip 2000 = Inr ?result"
    by (simp add: demo_env_def name_def)
  have d3: "py_or (?result ''secure_url'') (?result ''url'') = Some ''https://cdn/b.png''"
    by (simp add: py_or_def)
  have d4: "''https://cdn/b.png'' \<noteq> []"
    by simp
  have d5: "requests_get demo_env ''https://cdn/b.png'' = Inr ?resp"
    by (simp add: demo_env_def)
  have d6: "status_code ?resp \<noteq> 200"
    by simp
  have m500: "''HTTP '' @ str_int (status_code ?resp) = ''HTTP 500''"
    by code_simp
  from early_failure_changes_nothing[where E = demo_env and ip = ?ip and op = ?op
      and sc = "Finite 2" and s = empty_fs] d1 tw d2 d3 d4 d5 d6
  have "upscale_image demo_env ?ip ?op (Finite 2) empty_fs =
     (Inr (False, ''HTTP '' @ str_int (status_code ?resp)), empty_fs)"
    by blast
  then have r4: "upscale_image demo_env ?ip ?op (Finite 2) empty_fs =
     (Inr (False, ''HTTP 500''), empty_fs)"
    unfolding m500 .
  from a1 r1 b2 r2 c2 r3 d5 r4 show ?thesis by (intro conjI)
qed

end
